theory Spec2Isabelle
  imports Complex_Main "HOL-Library.Log_Nat" "HOL-Library.Multiset" "HOL-Library.Sublist"
begin

section \<open>Python values used by tools.py\<close>

text \<open>
  The embedding follows \<^verbatim>\<open>src/tools.py\<close> function by function. Exceptions are values
  of \<open>py_error\<close>; a function that can raise returns \<open>py_error + 'a\<close>.
\<close>

datatype py_error = KeyError | ValueError | TypeError

subsection \<open>Strings\<close>

text \<open>
  A Python \<^verbatim>\<open>str\<close> is a \<open>string\<close>: each \<open>char\<close> is one code point below 256.
  On these code points the regular expression class \<^verbatim>\<open>\d\<close> is exactly \<^verbatim>\<open>0\<close> to
  \<^verbatim>\<open>9\<close>, and the white space that \<^verbatim>\<open>str.strip()\<close> removes is 9 to 13, 28 to 32,
  133 and 160.
\<close>

definition is_digit :: "char \<Rightarrow> bool" where
  "is_digit c = (let n = (of_char c :: nat) in 48 \<le> n \<and> n \<le> 57)"

definition is_space :: "char \<Rightarrow> bool" where
  "is_space c =
     (let n = (of_char c :: nat)
      in (9 \<le> n \<and> n \<le> 13) \<or> (28 \<le> n \<and> n \<le> 32) \<or> n = 133 \<or> n = 160)"

definition py_strip :: "string \<Rightarrow> string" where
  "py_strip s = rev (dropWhile is_space (rev (dropWhile is_space s)))"

text \<open>
  \<^verbatim>\<open>str.upper()\<close>: the letters a to z, and the Latin-1 letters 224 to 254 other than the
  division sign 247, move down by 32; the sharp s (223) becomes \<^verbatim>\<open>SS\<close>. The capitals
  of the code points 181 and 255 lie beyond 255 and cannot be written in a \<open>string\<close>;
  both are left in place, which no comparison with an ASCII key can tell apart.
\<close>

definition upper_char :: "char \<Rightarrow> string" where
  "upper_char c =
     (let n = (of_char c :: nat)
      in if (97 \<le> n \<and> n \<le> 122) \<or> (224 \<le> n \<and> n \<le> 254 \<and> n \<noteq> 247) then [char_of (n - 32)]
         else if n = 223 then ''SS''
         else [c])"

definition py_upper :: "string \<Rightarrow> string" where
  "py_upper s = concat (map upper_char s)"

text \<open>\<^verbatim>\<open>re.sub(r'[^...]', '', s)\<close> keeps the characters of the class, in order.\<close>

definition re_sub_keep :: "(char \<Rightarrow> bool) \<Rightarrow> string \<Rightarrow> string" where
  "re_sub_keep keep s = filter keep s"

text \<open>\<^verbatim>\<open>query.replace(' ', '+')\<close>\<close>

definition replace_space_plus :: "string \<Rightarrow> string" where
  "replace_space_plus s = map (\<lambda>c. if c = CHR '' '' then CHR ''+'' else c) s"

subsection \<open>Floats\<close>

text \<open>
  A Python \<^verbatim>\<open>float\<close> is an IEEE 754 binary64 value: a finite rational, an infinity or
  NaN. The two zeros are one value, as \<^verbatim>\<open>==\<close> has them. Every operation computes the
  exact rational result and rounds it with \<open>double_round\<close>: to the nearest multiple of
  \<open>2 ^ q\<close>, ties to the even multiple, where \<open>q\<close> leaves 53 significant bits and is at
  least \<open>- 1074\<close> (the subnormal range); a result of magnitude \<open>2 ^ 1024\<close> or more is an
  infinity.
\<close>

datatype pyfloat = Fin rat | PInf | NInf | NaN

definition ilog2 :: "rat \<Rightarrow> int" where
  \<comment> \<open>for \<open>0 < x\<close>: the \<open>e\<close> with \<open>2 ^ e \<le> x < 2 ^ (e + 1)\<close>\<close>
  "ilog2 x = (if 1 \<le> x then bitlen \<lfloor>x\<rfloor> - 1 else - bitlen (\<lceil>1 / x\<rceil> - 1))"

definition round_half_even :: "rat \<Rightarrow> int" where
  "round_half_even x =
     (let f = \<lfloor>x\<rfloor>; d = x - of_int f
      in if d < 1 / 2 then f else if 1 / 2 < d then f + 1 else if even f then f else f + 1)"

definition round_to_quantum :: "rat \<Rightarrow> rat" where
  "round_to_quantum x =
     (let q = max (ilog2 \<bar>x\<bar> - 52) (- 1074)
      in of_int (round_half_even (x / 2 powi q)) * 2 powi q)"

definition overflow_threshold :: rat where
  "overflow_threshold = 2 ^ 1024"

definition double_round :: "rat \<Rightarrow> pyfloat" where
  "double_round x =
     (if x = 0 then Fin 0
      else let y = round_to_quantum x
           in if overflow_threshold \<le> y then PInf
              else if y \<le> - overflow_threshold then NInf
              else Fin y)"

text \<open>\<^verbatim>\<open>a < b\<close> and \<^verbatim>\<open>a <= b\<close> on floats: false as soon as one side is NaN.\<close>

fun flt :: "pyfloat \<Rightarrow> pyfloat \<Rightarrow> bool" where
  "flt (Fin a) (Fin b) = (a < b)"
| "flt (Fin a) PInf = True"
| "flt NInf (Fin b) = True"
| "flt NInf PInf = True"
| "flt (Fin a) NInf = False"
| "flt PInf b = False"
| "flt NInf NInf = False"
| "flt NaN b = False"
| "flt (Fin a) NaN = False"
| "flt NInf NaN = False"

definition fle :: "pyfloat \<Rightarrow> pyfloat \<Rightarrow> bool" where
  "fle a b = (a \<noteq> NaN \<and> b \<noteq> NaN \<and> (flt a b \<or> a = b))"

text \<open>\<^verbatim>\<open>a * b\<close> and \<^verbatim>\<open>a - b\<close> on floats; neither raises.\<close>

fun fmul :: "pyfloat \<Rightarrow> pyfloat \<Rightarrow> pyfloat" where
  "fmul (Fin a) (Fin b) = double_round (a * b)"
| "fmul (Fin a) PInf = (if a = 0 then NaN else if 0 < a then PInf else NInf)"
| "fmul (Fin a) NInf = (if a = 0 then NaN else if 0 < a then NInf else PInf)"
| "fmul PInf (Fin b) = (if b = 0 then NaN else if 0 < b then PInf else NInf)"
| "fmul NInf (Fin b) = (if b = 0 then NaN else if 0 < b then NInf else PInf)"
| "fmul PInf PInf = PInf"
| "fmul PInf NInf = NInf"
| "fmul NInf PInf = NInf"
| "fmul NInf NInf = PInf"
| "fmul NaN b = NaN"
| "fmul a NaN = NaN"

fun fsub :: "pyfloat \<Rightarrow> pyfloat \<Rightarrow> pyfloat" where
  "fsub (Fin a) (Fin b) = double_round (a - b)"
| "fsub (Fin a) PInf = NInf"
| "fsub (Fin a) NInf = PInf"
| "fsub PInf (Fin b) = PInf"
| "fsub NInf (Fin b) = NInf"
| "fsub PInf PInf = NaN"
| "fsub PInf NInf = PInf"
| "fsub NInf PInf = NInf"
| "fsub NInf NInf = NaN"
| "fsub NaN b = NaN"
| "fsub a NaN = NaN"

text \<open>
  \<^verbatim>\<open>float(s)\<close> for a string \<open>s\<close> of digits and periods, the only strings \<open>clean_price\<close>
  passes to it: digits with at most one period and at least one digit parse to the
  double nearest their decimal value; every other such string raises ValueError.
\<close>

definition decimal_value :: "string \<Rightarrow> nat" where
  "decimal_value ds = foldl (\<lambda>a c. 10 * a + (of_char c - 48)) 0 ds"

definition py_float :: "string \<Rightarrow> py_error + pyfloat" where
  "py_float s =
     (let ip = takeWhile is_digit s; rest = dropWhile is_digit s
      in case rest of
           [] \<Rightarrow> if ip = [] then Inl ValueError else Inr (double_round (of_nat (decimal_value ip)))
         | c # fp \<Rightarrow>
             if c = CHR ''.'' \<and> list_all is_digit fp \<and> (ip \<noteq> [] \<or> fp \<noteq> [])
             then Inr (double_round
                    (of_nat (decimal_value ip) + of_nat (decimal_value fp) / 10 ^ length fp))
             else Inl ValueError)"

section \<open>clean_url and clean_price\<close>

text \<open>
  \<^verbatim>\<open>
  def clean_url(url: str, site: str) -> str:
      if not url:
          return ''
      if not url.startswith(('http://', 'https://')):
          url = f'https://www.{site}{url if url.startswith("/") else "/" + url}'
      return url
  \<close>
  The caller passes \<^verbatim>\<open>url_elem.get('href')\<close>, which is \<^verbatim>\<open>None\<close> when the attribute is
  absent, so the argument is a \<open>string option\<close>.
\<close>

definition clean_url :: "string option \<Rightarrow> string \<Rightarrow> string" where
  "clean_url url site =
     (case url of
        None \<Rightarrow> []
      | Some u \<Rightarrow>
          if u = [] then []
          else if \<not> (prefix ''http://'' u \<or> prefix ''https://'' u)
               then ''https://www.'' @ site @ (if prefix ''/'' u then u else ''/'' @ u)
               else u)"

text \<open>
  \<^verbatim>\<open>
  def clean_price(price_str: str) -> float:
      try:
          price_str = re.sub(r'[^\d.]', '', re.sub(r'[^\d.,]', '', price_str))
          return float(price_str)
      except (ValueError, TypeError):
          return 0.0
  \<close>
\<close>

definition clean_price :: "string \<Rightarrow> py_error + pyfloat" where
  "clean_price price_str =
     (case py_float
             (re_sub_keep (\<lambda>c. is_digit c \<or> c = CHR ''.'')
                (re_sub_keep (\<lambda>c. is_digit c \<or> c = CHR ''.'' \<or> c = CHR '','') price_str)) of
        Inr x \<Rightarrow> Inr x
      | Inl e \<Rightarrow> if e = ValueError \<or> e = TypeError then Inr (Fin 0) else Inl e)"

section \<open>Products and filters\<close>

text \<open>The dataclass \<^verbatim>\<open>Product\<close>; the field \<^verbatim>\<open>size\<close> is \<open>size_field\<close> here.\<close>

record product =
  name :: string
  price :: pyfloat
  website :: string
  url :: string
  size_field :: "string option"
  color :: "string option"
  description :: "string option"
  in_stock :: bool
  shipping_time :: "int option"
  return_policy :: "string option"

text \<open>
  The constructor call \<^verbatim>\<open>Product(name=..., price=..., website=..., url=..., in_stock=...)\<close>:
  the fields it does not name take the defaults of the dataclass.
\<close>

definition Product :: "string \<Rightarrow> pyfloat \<Rightarrow> string \<Rightarrow> string \<Rightarrow> bool \<Rightarrow> product" where
  "Product n p w u stock =
     \<lparr>name = n, price = p, website = w, url = u, size_field = None, color = None,
      description = None, in_stock = stock, shipping_time = None, return_policy = None\<rparr>"

text \<open>The values a filter mapping holds: \<^verbatim>\<open>None\<close>, a bool, an int, a float or a str.\<close>

datatype pyval = VNone | VBool bool | VInt int | VFloat pyfloat | VStr string

text \<open>
  \<^verbatim>\<open>price < value\<close> and \<^verbatim>\<open>price > value\<close> for a float \<open>price\<close>: an int (and a bool, which
  is an int) compares by its exact value; \<^verbatim>\<open>None\<close> and a str raise TypeError.
\<close>

fun number_of :: "pyval \<Rightarrow> py_error + pyfloat" where
  "number_of (VFloat f) = Inr f"
| "number_of (VInt i) = Inr (Fin (of_int i))"
| "number_of (VBool b) = Inr (Fin (if b then 1 else 0))"
| "number_of VNone = Inl TypeError"
| "number_of (VStr s) = Inl TypeError"

definition py_gt :: "pyfloat \<Rightarrow> pyval \<Rightarrow> py_error + bool" where
  "py_gt p v = (case number_of v of Inl e \<Rightarrow> Inl e | Inr f \<Rightarrow> Inr (flt f p))"

definition py_lt :: "pyfloat \<Rightarrow> pyval \<Rightarrow> py_error + bool" where
  "py_lt p v = (case number_of v of Inl e \<Rightarrow> Inl e | Inr f \<Rightarrow> Inr (flt p f))"

text \<open>\<^verbatim>\<open>field != value\<close> for an \<^verbatim>\<open>Optional[str]\<close> field.\<close>

fun py_ne :: "string option \<Rightarrow> pyval \<Rightarrow> bool" where
  "py_ne None VNone = False"
| "py_ne (Some s) (VStr t) = (s \<noteq> t)"
| "py_ne None v = True"
| "py_ne (Some s) v = True"

text \<open>
  \<^verbatim>\<open>
  def matches_filters(product, filters=None) -> bool:
      if not filters:
          return True
      for key, value in filters.items():
          if key == 'max_price' and product.price > value:
              return False
          if key == 'min_price' and product.price < value:
              return False
          if key == 'size' and product.size != value:
              return False
          if key == 'color' and product.color != value:
              return False
      return True
  \<close>
  A filter mapping is the list of its items in iteration order; \<^verbatim>\<open>None\<close> and the empty
  mapping are both falsy.
\<close>

type_synonym filters = "(string \<times> pyval) list"

fun filters_loop :: "product \<Rightarrow> filters \<Rightarrow> py_error + bool" where
  "filters_loop product [] = Inr True"
| "filters_loop product ((key, v) # rest) =
     (case (if key = ''max_price'' then py_gt (price product) v else Inr False) of
        Inl e \<Rightarrow> Inl e
      | Inr True \<Rightarrow> Inr False
      | Inr False \<Rightarrow>
          (case (if key = ''min_price'' then py_lt (price product) v else Inr False) of
             Inl e \<Rightarrow> Inl e
           | Inr True \<Rightarrow> Inr False
           | Inr False \<Rightarrow>
               if key = ''size'' \<and> py_ne (size_field product) v then Inr False
               else if key = ''color'' \<and> py_ne (color product) v then Inr False
               else filters_loop product rest))"

definition matches_filters :: "product \<Rightarrow> filters option \<Rightarrow> py_error + bool" where
  "matches_filters product fs =
     (case fs of
        None \<Rightarrow> Inr True
      | Some items \<Rightarrow> if items = [] then Inr True else filters_loop product items)"

section \<open>search_site\<close>

text \<open>
  What \<open>search_site\<close> reads of a response. A \<open>listing\<close> is one element of
  \<^verbatim>\<open>soup.find_all(class_=site_selectors['container'])\<close>, in document order, with what its
  three \<^verbatim>\<open>find\<close> calls return: the text of the title element and of the price element
  when found, and for a found link element its \<^verbatim>\<open>href\<close> when it has one. A parsed page
  answers the selector dict it is queried with. \<^verbatim>\<open>requests.get\<close> either raises a
  \<^verbatim>\<open>RequestException\<close> or returns a page; the network is a function from the search
  address to one of the two.
\<close>

record listing =
  name_elem :: "string option"
  price_elem :: "string option"
  url_elem :: "string option option"

type_synonym rules = "(string \<times> string) list"

datatype http_result = RequestException | Response "rules \<Rightarrow> listing list"

type_synonym network = "string \<Rightarrow> http_result"


definition search_query_url_tag :: "(string \<times> string) list" where
  "search_query_url_tag =
     [(''amazon.com'', ''s?k=''),
      (''walmart.com'', ''search?q=''),
      (''target.com'', ''s?searchTerm=''),
      (''ebay.com'', ''sch/i.html?_nkw=''),
      (''flipkart.com'', ''search?q='')]"

definition selectors :: "(string \<times> rules) list" where
  "selectors =
     [(''amazon.com'',
         [(''container'', ''s-result-item''), (''title'', ''a-text-normal''),
          (''price'', ''a-price-whole''), (''url'', ''a.a-link-normal'')]),
      (''walmart.com'',
         [(''container'', ''search-result-product''), (''title'', ''product-title-link''),
          (''price'', ''price-main''), (''url'', ''product-title-link'')])]"

text \<open>
  \<^verbatim>\<open>search_url = f"https://www.{site}/{search_query_url_tag[site]}{query.replace(' ', '+')}"\<close>,
  which raises KeyError for a site without a tag.
\<close>

definition search_url :: "string \<Rightarrow> string \<Rightarrow> py_error + string" where
  "search_url site query =
     (case map_of search_query_url_tag site of
        None \<Rightarrow> Inl KeyError
      | Some tag \<Rightarrow> Inr (''https://www.'' @ site @ ''/'' @ tag @ replace_space_plus query))"

text \<open>
  One pass of the loop over the listings: the body of the inner \<^verbatim>\<open>try\<close>, whose
  \<^verbatim>\<open>except Exception: continue\<close> leaves \<open>products\<close> as it was.
  \<^verbatim>\<open>
  if name_elem and price_elem and url_elem:
      price_text = price_elem.text.strip()
      price = clean_price(price_text)
      if price > 0:
          product = Product(name=name_elem.text.strip(), price=price, website=site,
                            url=clean_url(url_elem.get('href'), site), in_stock=True)
          if matches_filters(product, filters):
              products.append(product)
  \<close>
\<close>

definition loop_body :: "string \<Rightarrow> filters option \<Rightarrow> listing \<Rightarrow> product list \<Rightarrow> product list" where
  "loop_body site fs item products =
     (case (name_elem item, price_elem item, url_elem item) of
        (Some name_text, Some price_text, Some href) \<Rightarrow>
          (case clean_price (py_strip price_text) of
             Inl e \<Rightarrow> products
           | Inr p \<Rightarrow>
               if flt (Fin 0) p
               then let product =
                      Product (py_strip name_text) p site (clean_url href site) True
                    in (case matches_filters product fs of
                          Inl e \<Rightarrow> products
                        | Inr ok \<Rightarrow> if ok then products @ [product] else products)
               else products)
      | _ \<Rightarrow> products)"

fun listings_loop :: "string \<Rightarrow> filters option \<Rightarrow> listing list \<Rightarrow> product list \<Rightarrow> product list" where
  "listings_loop site fs [] products = products"
| "listings_loop site fs (item # items) products =
     listings_loop site fs items (loop_body site fs item products)"



text \<open>
  \<open>search_site\<close>: the address is built before the \<^verbatim>\<open>try\<close>; a \<^verbatim>\<open>RequestException\<close>
  gives \<^verbatim>\<open>[]\<close>; a site without selectors gives \<^verbatim>\<open>[]\<close>; otherwise the loop runs and
  \<^verbatim>\<open>products[:5]\<close> is returned.
\<close>

definition search_site :: "network \<Rightarrow> string \<Rightarrow> string \<Rightarrow> filters option \<Rightarrow> py_error + product list" where
  "search_site net site query fs =
     (case search_url site query of
        Inl e \<Rightarrow> Inl e
      | Inr address \<Rightarrow>
          (case net address of
             RequestException \<Rightarrow> Inr []
           | Response soup \<Rightarrow>
               (case map_of selectors site of
                  None \<Rightarrow> Inr []
                | Some site_selectors \<Rightarrow>
                    Inr (take 5 (listings_loop site fs (soup site_selectors) [])))))"

section \<open>search_products\<close>





section \<open>estimate_shipping\<close>

text \<open>
  A \<^verbatim>\<open>datetime\<close> is a naive one, as \<^verbatim>\<open>datetime.now()\<close> is: its count of microseconds.
  The difference of two is a \<^verbatim>\<open>timedelta\<close>, whose \<^verbatim>\<open>.days\<close> is the difference divided
  by the microseconds of a day, rounded down. The current time is an argument.
\<close>

type_synonym datetime = int

definition timedelta_days :: "int \<Rightarrow> int" where
  "timedelta_days micros = micros div 86400000000"

record shipping_option =
  cost :: pyfloat
  days :: int
  carrier :: string

definition shipping_options :: "(string \<times> shipping_option) list" where
  "shipping_options =
     [(''standard'', \<lparr>cost = double_round (599 / 100), days = 5, carrier = ''USPS''\<rparr>),
      (''expedited'', \<lparr>cost = double_round (1299 / 100), days = 2, carrier = ''FedEx''\<rparr>),
      (''overnight'', \<lparr>cost = double_round (2499 / 100), days = 1, carrier = ''UPS''\<rparr>)]"

text \<open>
  \<^verbatim>\<open>min(items, key=lambda x: x[1]['cost'])\<close> on a non-empty sequence: the first item
  that no later item is smaller than.
\<close>

fun min_by_cost :: "string \<times> shipping_option \<Rightarrow> (string \<times> shipping_option) list \<Rightarrow> string \<times> shipping_option" where
  "min_by_cost best [] = best"
| "min_by_cost best (x # xs) =
     min_by_cost (if flt (cost (snd x)) (cost (snd best)) then x else best) xs"

text \<open>
  The returned dict has the key \<^verbatim>\<open>available_options\<close> alone when no target date is
  given, and the three keys otherwise.
\<close>

datatype shipping_estimate =
  Catalog "(string \<times> shipping_option) list"
| Deadline "(string \<times> shipping_option) list" bool "(string \<times> shipping_option) option"

text \<open>
  \<^verbatim>\<open>
  if target_date:
      days_needed = (target_date - datetime.now()).days
      available_options = {key: value for key, value in shipping_options.items()
                           if value['days'] <= days_needed}
      return {'available_options': available_options,
              'meets_deadline': len(available_options) > 0,
              'cheapest_option': min(available_options.items(), key=lambda x: x[1]['cost'])
                                 if available_options else None}
  return {'available_options': shipping_options}
  \<close>
\<close>

definition estimate_shipping :: "datetime \<Rightarrow> product \<Rightarrow> string \<Rightarrow> datetime option \<Rightarrow> shipping_estimate" where
  "estimate_shipping now product zip_code target_date =
     (case target_date of
        None \<Rightarrow> Catalog shipping_options
      | Some target \<Rightarrow>
          let days_needed = timedelta_days (target - now);
              available_options = filter (\<lambda>(key, v). days v \<le> days_needed) shipping_options
          in Deadline available_options (0 < length available_options)
               (case available_options of [] \<Rightarrow> None | x # xs \<Rightarrow> Some (min_by_cost x xs)))"

section \<open>check_promo\<close>

definition PROMO_CODES :: "(string \<times> pyfloat) list" where
  "PROMO_CODES =
     [(''SAVE10'', double_round (10 / 100)),
      (''SUMMER20'', double_round (20 / 100)),
      (''FLASH30'', double_round (30 / 100)),
      (''FIRSTORDER'', double_round (15 / 100))]"

record promo_prices =
  discount_percentage :: pyfloat
  original_price :: pyfloat
  final_price :: pyfloat
  savings :: pyfloat

datatype promo_result = Valid promo_prices | Invalid string

text \<open>
  \<^verbatim>\<open>
  def check_promo(code: str, base_price: float) -> Dict:
      code = code.upper()
      if code in PROMO_CODES:
          discount = PROMO_CODES[code]
          final_price = base_price * (1 - discount)
          return {'valid': True, 'discount_percentage': discount * 100,
                  'original_price': base_price, 'final_price': final_price,
                  'savings': base_price - final_price}
      return {'valid': False, 'message': 'Invalid promo code'}
  \<close>
\<close>

definition check_promo :: "string \<Rightarrow> pyfloat \<Rightarrow> promo_result" where
  "check_promo code base_price =
     (let code = py_upper code
      in case map_of PROMO_CODES code of
           Some discount \<Rightarrow>
             let final = fmul base_price (fsub (Fin 1) discount)
             in Valid \<lparr>discount_percentage = fmul discount (Fin 100),
                       original_price = base_price,
                       final_price = final,
                       savings = fsub base_price final\<rparr>
         | None \<Rightarrow> Invalid ''Invalid promo code'')"

section \<open>Example inputs\<close>

text \<open>
  Pages used to run the functions on concrete inputs. \<open>example_network\<close> answers the
  query \<^verbatim>\<open>red shirt\<close> with seven listings on amazon.com (the third has no price, the
  seventh is the cheapest) and one on walmart.com; every other request fails.
  \<open>no_href_network\<close> answers it on walmart.com with two listings: the link element
  of the first has no \<^verbatim>\<open>href\<close>, that of the second an empty one.
\<close>

definition example_listing :: "string \<Rightarrow> string \<Rightarrow> string option \<Rightarrow> listing" where
  "example_listing title price_text href =
     \<lparr>name_elem = Some title, price_elem = Some price_text, url_elem = Some href\<rparr>"



definition no_href_network :: network where
  "no_href_network address =
     (if address = ''https://www.walmart.com/search?q=red+shirt''
      then Response (\<lambda>rules.
             [example_listing ''Shirt X'' ''$30'' None,
              example_listing ''Shirt Y'' ''$40'' (Some [])])
      else RequestException)"

section \<open>Facts about floats\<close>

lemma overflow_threshold_code [code]:
  "overflow_threshold = (let a = 2 ^ 32; b = a * a; c = b * b; d = c * c; e = d * d in e * e)"
  by (simp add: overflow_threshold_def Let_def)

lemma overflow_threshold_pos: "0 < overflow_threshold"
  by (simp add: overflow_threshold_def)

lemma round_half_even_nonneg: "0 \<le> x \<Longrightarrow> 0 \<le> round_half_even x"
  by (auto simp: round_half_even_def Let_def)

lemma two_powi_pos: "0 < (2::rat) powi q"
  by (simp add: power_int_def)

lemma round_to_quantum_nonneg:
  assumes "0 \<le> x"
  shows "0 \<le> round_to_quantum x"
proof -
  have "0 \<le> rat_of_int (round_half_even (x / 2 powi q)) * 2 powi q" for q
  proof -
    have "0 \<le> x / 2 powi q"
      using assms two_powi_pos [of q] by simp
    then have "0 \<le> round_half_even (x / 2 powi q)"
      by (rule round_half_even_nonneg)
    then show ?thesis
      using two_powi_pos [of q] by simp
  qed
  then show ?thesis
    by (simp add: round_to_quantum_def Let_def)
qed

lemma double_round_nonneg:
  assumes "0 \<le> x"
  shows "fle (Fin 0) (double_round x)"
proof -
  have "0 \<le> round_to_quantum x"
    using assms by (rule round_to_quantum_nonneg)
  then show ?thesis
    using overflow_threshold_pos by (auto simp: double_round_def Let_def fle_def)
qed







section \<open>clean_url\<close>

text \<open>
  C6. A non-empty link that starts with neither \<^verbatim>\<open>http://\<close> nor \<^verbatim>\<open>https://\<close> becomes
  \<^verbatim>\<open>https://www.\<close>, the site, one slash and the link without the leading slash it may
  have had: a leading slash is reused, an absent one is inserted. When the link does
  not start with two slashes, what follows that slash does not start with a slash, so
  exactly one slash separates the site from the path. A link that starts with one of
  the two schemes is returned as it is. The link \<^verbatim>\<open>/p/123\<close> on \<^verbatim>\<open>example.com\<close> becomes
  \<^verbatim>\<open>https://www.example.com/p/123\<close>.
\<close>

theorem clean_url_rewrites:
  "(u \<noteq> [] \<and> \<not> prefix ''http://'' u \<and> \<not> prefix ''https://'' u \<longrightarrow>
      clean_url (Some u) site =
        ''https://www.'' @ site @ ''/'' @ (if prefix ''/'' u then tl u else u))
   \<and> (u \<noteq> [] \<and> \<not> prefix ''http://'' u \<and> \<not> prefix ''https://'' u \<and> \<not> prefix ''//'' u \<longrightarrow>
        (\<exists>path. clean_url (Some u) site = ''https://www.'' @ site @ ''/'' @ path
                \<and> \<not> prefix ''/'' path \<and> (u = path \<or> u = ''/'' @ path)))
   \<and> (prefix ''http://'' u \<or> prefix ''https://'' u \<longrightarrow> clean_url (Some u) site = u)
   \<and> clean_url (Some ''/p/123'') ''example.com'' = ''https://www.example.com/p/123''"
proof -
  have rewrite: "clean_url (Some u) site =
        ''https://www.'' @ site @ ''/'' @ (if prefix ''/'' u then tl u else u)"
    if "u \<noteq> [] \<and> \<not> prefix ''http://'' u \<and> \<not> prefix ''https://'' u"
    using that by (auto simp: clean_url_def prefix_def)
  have one: "\<exists>path. clean_url (Some u) site = ''https://www.'' @ site @ ''/'' @ path
                \<and> \<not> prefix ''/'' path \<and> (u = path \<or> u = ''/'' @ path)"
    if a: "u \<noteq> [] \<and> \<not> prefix ''http://'' u \<and> \<not> prefix ''https://'' u \<and> \<not> prefix ''//'' u"
  proof (cases "prefix ''/'' u")
    case True
    then obtain path where u: "u = ''/'' @ path" by (auto simp: prefix_def)
    then have "\<not> prefix ''/'' path" using a by (auto simp: prefix_def)
    moreover have "clean_url (Some u) site = ''https://www.'' @ site @ ''/'' @ path"
      using rewrite a u by simp
    ultimately show ?thesis using u by blast
  next
    case False
    moreover have "clean_url (Some u) site = ''https://www.'' @ site @ ''/'' @ u"
      using rewrite a False by simp
    ultimately show ?thesis by blast
  qed
  have unchanged: "clean_url (Some u) site = u" if "prefix ''http://'' u \<or> prefix ''https://'' u"
    using that by (auto simp: clean_url_def prefix_def)
  have example: "clean_url (Some ''/p/123'') ''example.com'' = ''https://www.example.com/p/123''"
    by (simp add: clean_url_def)
  show ?thesis using rewrite one unchanged example by blast
qed

theorem clean_url_rewrites_witness:
  "clean_url (Some ''img/7'') ''shop.org'' = ''https://www.shop.org/img/7''
   \<and> clean_url (Some ''/img/7'') ''shop.org'' = ''https://www.shop.org/img/7''
   \<and> clean_url (Some ''https://a.b/c'') ''shop.org'' = ''https://a.b/c''"
  using clean_url_rewrites [of "''img/7''" "''shop.org''"]
    clean_url_rewrites [of "''/img/7''" "''shop.org''"]
    clean_url_rewrites [of "''https://a.b/c''" "''shop.org''"]
  by (simp add: prefix_def)

text \<open>
  A link that starts with two slashes keeps both: the first is reused as the
  separator and the second follows it, so on \<^verbatim>\<open>shop.org\<close> the link \<^verbatim>\<open>//cdn.x/y\<close> becomes
  \<^verbatim>\<open>https://www.shop.org//cdn.x/y\<close>, where two slashes stand between the site and the
  path: what follows the site and one slash starts with a slash again.
\<close>

theorem clean_url_double_slash:
  "clean_url (Some ''//cdn.x/y'') ''shop.org'' = ''https://www.shop.org//cdn.x/y''
   \<and> drop (length ''https://www.shop.org/'') (clean_url (Some ''//cdn.x/y'') ''shop.org'')
       = ''/cdn.x/y''"
  by (simp add: clean_url_def)

section \<open>clean_price\<close>

lemma py_float_nonneg: "py_float s = Inr x \<Longrightarrow> fle (Fin 0) x"
  by (auto simp: py_float_def Let_def double_round_nonneg split: list.splits if_splits)

lemma py_float_error: "py_float s = Inl e \<Longrightarrow> e = ValueError"
  by (auto simp: py_float_def Let_def split: list.splits if_splits)

text \<open>
  C3. \<open>clean_price\<close> returns on every string, never raising. The value is what
  \<^verbatim>\<open>float\<close> makes of the string once every character other than a digit, a period or a
  comma has been removed and then every character other than a digit or a period; it
  is \<open>0\<close> when that remainder does not parse (the empty remainder included). The value
  is never below zero and never NaN.
\<close>

theorem clean_price_total:
  "\<exists>x. clean_price s = Inr x \<and> fle (Fin 0) x \<and>
       x = (case py_float
                   (re_sub_keep (\<lambda>c. is_digit c \<or> c = CHR ''.'')
                      (re_sub_keep (\<lambda>c. is_digit c \<or> c = CHR ''.'' \<or> c = CHR '','') s)) of
              Inr y \<Rightarrow> y
            | Inl e \<Rightarrow> Fin 0)"
proof (cases "py_float
                (re_sub_keep (\<lambda>c. is_digit c \<or> c = CHR ''.'')
                   (re_sub_keep (\<lambda>c. is_digit c \<or> c = CHR ''.'' \<or> c = CHR '','') s))")
  case (Inl e)
  then show ?thesis
    using py_float_error [OF Inl] by (simp add: clean_price_def fle_def)
next
  case (Inr y)
  then show ?thesis
    using py_float_nonneg [OF Inr] by (simp add: clean_price_def)
qed

theorem clean_price_total_witness:
  "(\<exists>x. clean_price ''$1,234.50'' = Inr x \<and> fle (Fin 0) x \<and> x = Fin (2469 / 2))
   \<and> (\<exists>x. clean_price ''1.2.3'' = Inr x \<and> fle (Fin 0) x \<and> x = Fin 0)
   \<and> (\<exists>x. clean_price ''n/a'' = Inr x \<and> fle (Fin 0) x \<and> x = Fin 0)"
proof -
  have a: "clean_price ''$1,234.50'' = Inr (Fin (2469 / 2))"
    by code_simp
  have b: "clean_price ''1.2.3'' = Inr (Fin 0)"
    by code_simp
  have c: "clean_price ''n/a'' = Inr (Fin 0)"
    by code_simp
  show ?thesis
    using clean_price_total [of "''$1,234.50''"] clean_price_total [of "''1.2.3''"]
      clean_price_total [of "''n/a''"]
    by (auto simp: a b c)
qed

section \<open>check_promo\<close>

lemma promo_distinct: "distinct (map fst PROMO_CODES)"
  by (simp add: PROMO_CODES_def)

text \<open>
  C7. \<open>check_promo\<close> looks the upper-cased code up in \<open>PROMO_CODES\<close>. A code found
  with discount \<open>d\<close> gives a valid result: the percentage \<open>d * 100\<close>, the original price,
  the final price \<open>base_price * (1 - d)\<close> and the savings, the base price minus the
  final price, all in float arithmetic. A code that is not found gives the invalid
  result, and nothing is raised. \<^verbatim>\<open>check_promo('save10', 100.0)\<close> is valid with
  percentage \<open>10.0\<close>, final price \<open>90.0\<close> and savings \<open>10.0\<close>.
\<close>

theorem check_promo_result:
  "(\<forall>discount. (py_upper code, discount) \<in> set PROMO_CODES \<longrightarrow>
      check_promo code base_price =
        Valid \<lparr>discount_percentage = fmul discount (Fin 100),
               original_price = base_price,
               final_price = fmul base_price (fsub (Fin 1) discount),
               savings = fsub base_price (fmul base_price (fsub (Fin 1) discount))\<rparr>)
   \<and> (py_upper code \<notin> fst ` set PROMO_CODES \<longrightarrow>
        check_promo code base_price = Invalid ''Invalid promo code'')
   \<and> check_promo ''save10'' (Fin 100) =
        Valid \<lparr>discount_percentage = Fin 10, original_price = Fin 100,
               final_price = Fin 90, savings = Fin 10\<rparr>"
proof (intro conjI allI impI)
  fix discount
  assume "(py_upper code, discount) \<in> set PROMO_CODES"
  then have "map_of PROMO_CODES (py_upper code) = Some discount"
    using promo_distinct by simp
  then show "check_promo code base_price =
        Valid \<lparr>discount_percentage = fmul discount (Fin 100),
               original_price = base_price,
               final_price = fmul base_price (fsub (Fin 1) discount),
               savings = fsub base_price (fmul base_price (fsub (Fin 1) discount))\<rparr>"
    by (simp add: check_promo_def Let_def)
next
  assume "py_upper code \<notin> fst ` set PROMO_CODES"
  then have "map_of PROMO_CODES (py_upper code) = None"
    by (simp add: map_of_eq_None_iff)
  then show "check_promo code base_price = Invalid ''Invalid promo code''"
    by (simp add: check_promo_def)
next
  show "check_promo ''save10'' (Fin 100) =
        Valid \<lparr>discount_percentage = Fin 10, original_price = Fin 100,
               final_price = Fin 90, savings = Fin 10\<rparr>"
    by code_simp
qed

theorem check_promo_result_witness:
  "check_promo ''Summer20'' (Fin 50) =
     Valid \<lparr>discount_percentage = Fin 20, original_price = Fin 50,
            final_price = Fin 40, savings = Fin 10\<rparr>
   \<and> check_promo ''BOGUS'' (Fin 50) = Invalid ''Invalid promo code''"
proof -
  have up: "py_upper ''Summer20'' = ''SUMMER20''" "py_upper ''BOGUS'' = ''BOGUS''"
    by code_simp+
  have found: "(py_upper ''Summer20'', double_round (20 / 100)) \<in> set PROMO_CODES"
    by (simp add: up PROMO_CODES_def)
  have missing: "py_upper ''BOGUS'' \<notin> fst ` set PROMO_CODES"
    by (simp add: up PROMO_CODES_def)
  have pct: "fmul (double_round (20 / 100)) (Fin 100) = Fin 20"
    by code_simp
  have fin: "fmul (Fin 50) (fsub (Fin 1) (double_round (20 / 100))) = Fin 40"
    by code_simp
  have sav: "fsub (Fin 50) (Fin 40) = Fin 10"
    by code_simp
  have "check_promo ''Summer20'' (Fin 50) =
        Valid \<lparr>discount_percentage = fmul (double_round (20 / 100)) (Fin 100),
               original_price = Fin 50,
               final_price = fmul (Fin 50) (fsub (Fin 1) (double_round (20 / 100))),
               savings = fsub (Fin 50) (fmul (Fin 50) (fsub (Fin 1) (double_round (20 / 100))))\<rparr>"
    using check_promo_result [of "''Summer20''" "Fin 50"] found by blast
  then have valid: "check_promo ''Summer20'' (Fin 50) =
        Valid \<lparr>discount_percentage = Fin 20, original_price = Fin 50,
               final_price = Fin 40, savings = Fin 10\<rparr>"
    unfolding pct fin sav .
  have invalid: "check_promo ''BOGUS'' (Fin 50) = Invalid ''Invalid promo code''"
    using check_promo_result [of "''BOGUS''" "Fin 50"] missing by blast
  show ?thesis
    using valid invalid by (rule conjI)
qed

section \<open>estimate_shipping\<close>

text \<open>
  C8. With a target date strictly before the current time, for every product and zip
  code, the days remaining are negative, no shipping option qualifies,
  \<^verbatim>\<open>meets_deadline\<close> is false and the cheapest option is \<^verbatim>\<open>None\<close>.
\<close>

theorem estimate_shipping_past:
  "target < now \<Longrightarrow>
     timedelta_days (target - now) < 0
     \<and> estimate_shipping now product zip_code (Some target) = Deadline [] False None"
proof -
  assume "target < now"
  then have "timedelta_days (target - now) < 0"
    by (simp add: timedelta_days_def)
  then show ?thesis
    by (simp add: estimate_shipping_def shipping_options_def Let_def)
qed

theorem estimate_shipping_past_witness:
  "timedelta_days (1730000000000000 - 1730086400000000) < 0
   \<and> estimate_shipping 1730086400000000
        \<lparr>name = ''Red shirt'', price = Fin 20, website = ''amazon.com'', url = ''https://a.b/c'',
         size_field = None, color = None, description = None, in_stock = True,
         shipping_time = None, return_policy = None\<rparr>
        ''94105'' (Some 1730000000000000) = Deadline [] False None"
  using estimate_shipping_past [of 1730000000000000 1730086400000000]
  by simp

text \<open>
  C10. \<open>estimate_shipping\<close> reads neither its product nor its zip code: with the
  same target date and the same current time, any two products and any two zip codes
  give the same result.
\<close>

theorem estimate_shipping_ignores_product_and_zip:
  "estimate_shipping now p1 z1 target_date = estimate_shipping now p2 z2 target_date"
  by (simp add: estimate_shipping_def)

theorem estimate_shipping_ignores_product_and_zip_witness:
  "estimate_shipping 0
     \<lparr>name = ''Red shirt'', price = Fin 20, website = ''amazon.com'', url = ''https://a.b/c'',
      size_field = None, color = None, description = None, in_stock = True,
      shipping_time = None, return_policy = None\<rparr>
     ''94105'' (Some 172800000000)
   = estimate_shipping 0
     \<lparr>name = ''Blue hat'', price = Fin 5, website = ''walmart.com'', url = ''https://d.e/f'',
      size_field = Some ''M'', color = Some ''blue'', description = None, in_stock = False,
      shipping_time = Some 3, return_policy = None\<rparr>
     ''10001'' (Some 172800000000)"
  by (rule estimate_shipping_ignores_product_and_zip)

section \<open>search_site\<close>

subsection \<open>The loop over the listings\<close>







subsection \<open>The search address\<close>







subsection \<open>What search_site returns\<close>







subsection \<open>The example pages\<close>








text \<open>
  C5. A listing whose link element is found but has no \<^verbatim>\<open>href\<close>, or an empty one, is
  not skipped: \<open>clean_url\<close> returns the empty string for it and \<open>search_site\<close> builds
  the product with that empty \<open>url\<close>. On \<open>no_href_network\<close> both listings of the
  walmart.com page are returned, each with the empty string as its \<open>url\<close>.
\<close>

theorem search_site_keeps_listing_without_href:
  "search_site no_href_network ''walmart.com'' ''red shirt'' None
  = Inr [Product ''Shirt X'' (Fin 30) ''walmart.com'' [] True,
         Product ''Shirt Y'' (Fin 40) ''walmart.com'' [] True]"
  by code_simp

subsection \<open>Size and colour filters\<close>




section \<open>search_products\<close>

subsection \<open>The executor and the sort\<close>

















subsection \<open>The example search\<close>










end
